theory Spec2Isabelle
  imports Main "HOL-Library.Word"
begin

unbundle bit_operations_syntax

section \<open>Text\<close>

text \<open>
  A Python \<open>str\<close> is a sequence of code points. A \<^typ>\<open>char\<close> stands for the code
  point of the same number, so a \<^typ>\<open>string\<close> is a Python string over U+0000 .. U+00FF.
  The tables below are those of CPython's Unicode database on that range: \<open>\d\<close> is
  the decimal digits, \<open>\s\<close> the white space, \<open>\w\<close> the alphanumerics and the underscore
  (patterns given as \<open>str\<close> are matched in Unicode mode).
\<close>

definition code :: "char \<Rightarrow> nat" where
  "code c = of_char c"

definition is_digit :: "char \<Rightarrow> bool" where
  "is_digit c = (48 \<le> code c \<and> code c \<le> 57)"

definition is_space :: "char \<Rightarrow> bool" where
  "is_space c = ((9 \<le> code c \<and> code c \<le> 13) \<or> (28 \<le> code c \<and> code c \<le> 32)
     \<or> code c = 133 \<or> code c = 160)"

definition is_upper_az :: "char \<Rightarrow> bool" where
  "is_upper_az c = (65 \<le> code c \<and> code c \<le> 90)"

definition is_lower_az :: "char \<Rightarrow> bool" where
  "is_lower_az c = (97 \<le> code c \<and> code c \<le> 122)"

definition is_word :: "char \<Rightarrow> bool" where
  "is_word c = (is_digit c \<or> is_upper_az c \<or> code c = 95 \<or> is_lower_az c
     \<or> code c = 170 \<or> code c = 178 \<or> code c = 179 \<or> code c = 181 \<or> code c = 185
     \<or> code c = 186 \<or> (188 \<le> code c \<and> code c \<le> 190)
     \<or> (192 \<le> code c \<and> code c \<le> 214) \<or> (216 \<le> code c \<and> code c \<le> 246)
     \<or> 248 \<le> code c)"

section \<open>The regular expressions of \<open>re\<close>\<close>

text \<open>
  The four patterns of \<open>PIIRedactor.PATTERNS\<close> are sequences of pieces: the assertion
  \<open>\b\<close>, and a set of characters under a greedy quantifier \<open>{lo,hi}\<close> (a single
  character is \<open>{1,1}\<close>, \<open>?\<close> is \<open>{0,1}\<close>, \<open>+\<close> is \<open>{1,}\<close>). \<open>re\<close> matches by
  backtracking: a quantifier first takes as many characters as it can and gives them
  back one at a time while the rest of the pattern fails.
\<close>

datatype piece = Boundary | Rep "char \<Rightarrow> bool" nat "nat option"

definition lit :: "char \<Rightarrow> piece" where
  "lit c = Rep (\<lambda>x. x = c) 1 (Some 1)"

definition exactly :: "nat \<Rightarrow> (char \<Rightarrow> bool) \<Rightarrow> piece" where
  "exactly n cls = Rep cls n (Some n)"

definition optional :: "(char \<Rightarrow> bool) \<Rightarrow> piece" where
  "optional cls = Rep cls 0 (Some 1)"

definition at_least :: "nat \<Rightarrow> (char \<Rightarrow> bool) \<Rightarrow> piece" where
  "at_least n cls = Rep cls n None"

fun word_before :: "char option \<Rightarrow> bool" where
  "word_before None = False"
| "word_before (Some c) = is_word c"

fun word_here :: "string \<Rightarrow> bool" where
  "word_here [] = False"
| "word_here (c # cs) = is_word c"

text \<open>\<open>\b\<close>: exactly one of the character before and the character at the position is a
  word character; the start and the end of the text count as non-word.\<close>

definition at_boundary :: "char option \<Rightarrow> string \<Rightarrow> bool" where
  "at_boundary prev s = (word_before prev \<noteq> word_here s)"

text \<open>The character before the position, once the characters \<open>s\<close> have been consumed.\<close>

fun last_of :: "char option \<Rightarrow> string \<Rightarrow> char option" where
  "last_of prev [] = prev"
| "last_of prev (c # cs) = last_of (Some c) cs"

text \<open>How many characters a greedy quantifier takes at first: the longest run of the
  set at the start of \<open>s\<close>, of at most \<open>hi\<close> characters.\<close>

definition greedy :: "(char \<Rightarrow> bool) \<Rightarrow> nat option \<Rightarrow> string \<Rightarrow> nat" where
  "greedy cls hi s =
     (case hi of None \<Rightarrow> length (takeWhile cls s)
      | Some h \<Rightarrow> length (takeWhile cls (take h s)))"

text \<open>
  \<open>match_here ps adv acc prev s\<close>: match the pieces \<open>ps\<close> at the start of \<open>s\<close>, where
  \<open>prev\<close> is the character before it and \<open>acc\<close> counts the characters the match has
  consumed so far; the result is the length of the whole match. With \<open>adv\<close> an empty
  match is refused (the rule of \<open>sub\<close> and \<open>findall\<close> after an empty match).
  \<open>backtrack ps adv acc prev s lo n\<close>: the quantifier before \<open>ps\<close> has taken \<open>n\<close>
  characters of \<open>s\<close> and gives one back each time \<open>ps\<close> fails, down to \<open>lo\<close>.
\<close>

function match_here :: "piece list \<Rightarrow> bool \<Rightarrow> nat \<Rightarrow> char option \<Rightarrow> string \<Rightarrow> nat option"
  and backtrack :: "piece list \<Rightarrow> bool \<Rightarrow> nat \<Rightarrow> char option \<Rightarrow> string \<Rightarrow> nat \<Rightarrow> nat \<Rightarrow> nat option"
where
  "match_here [] adv acc prev s = (if adv \<and> acc = 0 then None else Some acc)"
| "match_here (Boundary # ps) adv acc prev s =
     (if at_boundary prev s then match_here ps adv acc prev s else None)"
| "match_here (Rep cls lo hi # ps) adv acc prev s =
     backtrack ps adv acc prev s lo (greedy cls hi s)"
| "backtrack ps adv acc prev s lo n =
     (if n < lo then None
      else case match_here ps adv (acc + n) (last_of prev (take n s)) (drop n s) of
        Some r \<Rightarrow> Some r
      | None \<Rightarrow> if n = 0 then None else backtrack ps adv acc prev s lo (n - 1))"
  by pat_completeness auto
termination
  by (relation "measures [\<lambda>x. case x of Inl (ps, _) \<Rightarrow> 2 * length ps | Inr (ps, _) \<Rightarrow> 2 * length ps + 1,
                          \<lambda>x. case x of Inl _ \<Rightarrow> 0 | Inr (_, _, _, _, _, _, n) \<Rightarrow> n]") auto

declare backtrack.simps [simp del]

text \<open>\<open>re.search\<close>: the first position, from the left, where the pattern matches; the
  result is the span of the match.\<close>

fun search_at :: "piece list \<Rightarrow> nat \<Rightarrow> char option \<Rightarrow> string \<Rightarrow> (nat \<times> nat) option" where
  "search_at p i prev [] =
     (case match_here p False 0 prev [] of Some n \<Rightarrow> Some (i, i + n) | None \<Rightarrow> None)"
| "search_at p i prev (c # cs) =
     (case match_here p False 0 prev (c # cs) of
        Some n \<Rightarrow> Some (i, i + n)
      | None \<Rightarrow> search_at p (Suc i) (Some c) cs)"

definition re_search :: "piece list \<Rightarrow> string \<Rightarrow> (nat \<times> nat) option" where
  "re_search p s = search_at p 0 None s"

text \<open>A match never reads past the text, and with \<open>adv\<close> it is never empty: the two
  facts the loop of \<open>sub\<close> and \<open>findall\<close> terminates by.\<close>

lemma greedy_le: "greedy cls hi s \<le> length s"
proof (cases hi)
  case None
  then show ?thesis by (simp add: greedy_def length_takeWhile_le)
next
  case (Some h)
  have "length (takeWhile cls (take h s)) \<le> length (take h s)"
    by (rule length_takeWhile_le)
  then show ?thesis using Some by (simp add: greedy_def)
qed

lemma match_here_bounds:
  "match_here ps adv acc prev s = Some r \<Longrightarrow> acc \<le> r \<and> r \<le> acc + length s"
  and backtrack_bounds:
  "backtrack ps adv acc prev s lo n = Some r \<Longrightarrow> n \<le> length s \<Longrightarrow> acc \<le> r \<and> r \<le> acc + length s"
proof (induction ps adv acc prev s and ps adv acc prev s lo n rule: match_here_backtrack.induct)
  case (1 adv acc prev s)
  then show ?case by (auto split: if_splits)
next
  case (2 ps adv acc prev s)
  then show ?case by (auto split: if_splits)
next
  case (3 cls lo hi ps adv acc prev s)
  then show ?case using greedy_le by auto
next
  case (4 ps adv acc prev s lo n)
  from "4.prems"(1) have nlo: "\<not> n < lo"
    by (subst (asm) backtrack.simps) (auto split: if_splits)
  show ?case
  proof (cases "match_here ps adv (acc + n) (last_of prev (take n s)) (drop n s)")
    case (Some r')
    with "4.prems" nlo have "r' = r"
      by (subst (asm) backtrack.simps) auto
    with "4.IH"(1)[OF nlo] Some "4.prems"(2) show ?thesis by auto
  next
    case None
    with "4.prems" nlo have n0: "n \<noteq> 0" and rec: "backtrack ps adv acc prev s lo (n - 1) = Some r"
      by (subst (asm) backtrack.simps, auto split: if_splits)+
    from "4.IH"(2)[OF nlo None n0 rec] "4.prems"(2) show ?thesis by auto
  qed
qed

lemma match_here_advances:
  "match_here ps True acc prev s = Some r \<Longrightarrow> r \<noteq> 0"
  and backtrack_advances:
  "backtrack ps True acc prev s lo n = Some r \<Longrightarrow> r \<noteq> 0"
proof (induction ps "True" acc prev s and ps "True" acc prev s lo n rule: match_here_backtrack.induct)
  case (1 acc prev s)
  then show ?case by (auto split: if_splits)
next
  case (2 ps acc prev s)
  then show ?case by (auto split: if_splits)
next
  case (3 cls lo hi ps acc prev s)
  then show ?case by auto
next
  case (4 ps acc prev s lo n)
  from "4.prems"(1) have nlo: "\<not> n < lo"
    by (subst (asm) backtrack.simps) (auto split: if_splits)
  show ?case
  proof (cases "match_here ps True (acc + n) (last_of prev (take n s)) (drop n s)")
    case (Some r')
    with "4.prems" nlo have "r' = r"
      by (subst (asm) backtrack.simps) auto
    with "4.hyps"(1)[OF nlo] Some show ?thesis by auto
  next
    case None
    with "4.prems" nlo have n0: "n \<noteq> 0" and rec: "backtrack ps True acc prev s lo (n - 1) = Some r"
      by (subst (asm) backtrack.simps, auto split: if_splits)+
    from "4.hyps"(2)[OF nlo None n0 rec] show ?thesis by auto
  qed
qed

text \<open>
  The loop shared by \<open>re.sub\<close> and \<open>re.findall\<close>: the matches, from the left and not
  overlapping, and between them the characters no match covers. After an empty match
  the next one must advance. The character before a position is always that of the
  original text.
\<close>

datatype tok = Lit char | Hit string

function scan :: "piece list \<Rightarrow> bool \<Rightarrow> char option \<Rightarrow> string \<Rightarrow> tok list" where
  "scan p adv prev s =
     (case match_here p adv 0 prev s of
        Some n \<Rightarrow>
          if n = 0 then Hit [] # scan p True prev s
          else Hit (take n s) # scan p False (last_of prev (take n s)) (drop n s)
      | None \<Rightarrow>
          (case s of [] \<Rightarrow> [] | c # cs \<Rightarrow> Lit c # scan p False (Some c) cs))"
  by pat_completeness auto
termination
proof (relation "measures [\<lambda>(p, adv, prev, s). length s, \<lambda>(p, adv, prev, s). if adv then 0 else 1]")
  show "wf (measures [\<lambda>(p, adv, prev, s). length s, \<lambda>(p, adv, prev, s). if adv then 0 else 1])"
    by simp
next
  fix p adv prev s n
  assume "match_here p adv 0 prev s = Some n" "n = 0"
  then have "\<not> adv" using match_here_advances[of p 0 prev s 0] by (cases adv) auto
  then show "((p, True, prev, s), p, adv, prev, s)
      \<in> measures [\<lambda>(p, adv, prev, s). length s, \<lambda>(p, adv, prev, s). if adv then 0 else 1]"
    by simp
next
  fix p adv prev s n
  assume m: "match_here p adv 0 prev s = Some n" and n: "n \<noteq> 0"
  from match_here_bounds[OF m] n have "s \<noteq> []" by auto
  with n show "((p, False, last_of prev (take n s), drop n s), p, adv, prev, s)
      \<in> measures [\<lambda>(p, adv, prev, s). length s, \<lambda>(p, adv, prev, s). if adv then 0 else 1]"
    by simp
next
  fix p adv prev s c cs
  assume "s = c # cs"
  then show "((p, False, Some c, cs), p, adv, prev, s)
      \<in> measures [\<lambda>(p, adv, prev, s). length s, \<lambda>(p, adv, prev, s). if adv then 0 else 1]"
    by simp
qed

declare scan.simps [simp del]

text \<open>\<open>re.sub\<close> with a replacement that has no backslash and no group reference (the
  placeholders have none), and \<open>re.findall\<close> for a pattern without groups (the four
  patterns have none: \<open>\(\<close> and \<open>\)\<close> are literal parentheses).\<close>

fun emit :: "string \<Rightarrow> tok \<Rightarrow> string" where
  "emit repl (Lit c) = [c]"
| "emit repl (Hit m) = repl"

definition re_sub :: "piece list \<Rightarrow> string \<Rightarrow> string \<Rightarrow> string" where
  "re_sub p repl s = concat (map (emit repl) (scan p False None s))"

fun hits :: "tok list \<Rightarrow> string list" where
  "hits [] = []"
| "hits (Lit c # ts) = hits ts"
| "hits (Hit m # ts) = m # hits ts"

definition re_findall :: "piece list \<Rightarrow> string \<Rightarrow> string list" where
  "re_findall p s = hits (scan p False None s)"

section \<open>PIIRedactor\<close>

subsection \<open>PATTERNS and REPLACEMENTS\<close>

definition dash_or_space :: "char \<Rightarrow> bool" where
  "dash_or_space c = (c = CHR ''-'' \<or> is_space c)"

definition dash_dot_or_space :: "char \<Rightarrow> bool" where
  "dash_dot_or_space c = (c = CHR ''-'' \<or> c = CHR ''.'' \<or> is_space c)"

definition az_letter :: "char \<Rightarrow> bool" where
  "az_letter c = (is_lower_az c \<or> is_upper_az c)"

definition email_local :: "char \<Rightarrow> bool" where
  "email_local c = (is_lower_az c \<or> is_upper_az c \<or> is_digit c \<or> c = CHR ''.''
     \<or> c = CHR ''_'' \<or> c = CHR ''%'' \<or> c = CHR ''+'' \<or> c = CHR ''-'')"

definition email_domain :: "char \<Rightarrow> bool" where
  "email_domain c = (is_lower_az c \<or> is_upper_az c \<or> is_digit c \<or> c = CHR ''.''
     \<or> c = CHR ''-'')"

text \<open>\<^verbatim>\<open>\b\d{3}-\d{2}-\d{4}\b\<close>\<close>

definition ssn_pattern :: "piece list" where
  "ssn_pattern = [Boundary, exactly 3 is_digit, lit CHR ''-'', exactly 2 is_digit,
     lit CHR ''-'', exactly 4 is_digit, Boundary]"

text \<open>\<^verbatim>\<open>\b\d{4}[-\s]?\d{4}[-\s]?\d{4}[-\s]?\d{4}\b\<close>\<close>

definition credit_card_pattern :: "piece list" where
  "credit_card_pattern = [Boundary, exactly 4 is_digit, optional dash_or_space,
     exactly 4 is_digit, optional dash_or_space, exactly 4 is_digit, optional dash_or_space,
     exactly 4 is_digit, Boundary]"

text \<open>\<^verbatim>\<open>\b[a-zA-Z0-9._%+-]+@[a-zA-Z0-9.-]+\.[a-zA-Z]{2,}\b\<close>\<close>

definition email_pattern :: "piece list" where
  "email_pattern = [Boundary, at_least 1 email_local, lit CHR ''@'', at_least 1 email_domain,
     lit CHR ''.'', at_least 2 az_letter, Boundary]"

text \<open>\<^verbatim>\<open>\(?\d{3}\)?[-.\s]?\d{3}[-.\s]?\d{4}\b\<close>\<close>

definition phone_pattern :: "piece list" where
  "phone_pattern = [optional (\<lambda>c. c = CHR ''(''), exactly 3 is_digit,
     optional (\<lambda>c. c = CHR '')''), optional dash_dot_or_space, exactly 3 is_digit,
     optional dash_dot_or_space, exactly 4 is_digit, Boundary]"

text \<open>A \<open>dict\<close> keeps its items in insertion order: it is the list of its items.\<close>

definition PATTERNS :: "(string \<times> piece list) list" where
  "PATTERNS = [(''ssn'', ssn_pattern), (''credit_card'', credit_card_pattern),
     (''email'', email_pattern), (''phone'', phone_pattern)]"

definition REPLACEMENTS :: "(string \<times> string) list" where
  "REPLACEMENTS = [(''ssn'', ''[REDACTED_SSN]''), (''credit_card'', ''[REDACTED_CC]''),
     (''email'', ''[REDACTED_EMAIL]''), (''phone'', ''[REDACTED_PHONE]'')]"

subsection \<open>\<open>_redact_string\<close>\<close>

text \<open>\<open>REPLACEMENTS[pii_type]\<close> is read for the keys of \<open>PATTERNS\<close> only, and each of
  them is a key of \<open>REPLACEMENTS\<close> (lemma \<open>replacement_defined\<close>): the lookup never
  raises.\<close>

definition replacement :: "string \<Rightarrow> string" where
  "replacement pii_type = the (map_of REPLACEMENTS pii_type)"

fun redact_loop :: "(string \<times> piece list) list \<Rightarrow> string \<Rightarrow> string" where
  "redact_loop [] text = text"
| "redact_loop ((pii_type, pattern) # rest) text =
     redact_loop rest (re_sub pattern (replacement pii_type) text)"

definition redact_string :: "string \<Rightarrow> string" where
  "redact_string text = redact_loop PATTERNS text"

subsection \<open>Values\<close>

text \<open>
  The data \<open>redact\<close> and \<open>detect_pii\<close> take: a string, a \<open>dict\<close> with string keys (its
  items in insertion order, the keys distinct), a \<open>list\<close>, an \<open>int\<close>, a \<open>bool\<close>,
  \<open>None\<close>, or a leaf of another type (a \<open>float\<close>, for one), which this program only
  ever prints: \<open>POther t\<close> is such a leaf, \<open>t\<close> the text Python prints for it.
\<close>

datatype pyval =
    PStr string
  | PDict "(string \<times> pyval) list"
  | PList "pyval list"
  | PInt int
  | PBool bool
  | PNone
  | POther string

fun redact :: "pyval \<Rightarrow> pyval" where
  "redact (PStr s) = PStr (redact_string s)"
| "redact (PDict items) = PDict (map (\<lambda>kv. (fst kv, redact (snd kv))) items)"
| "redact (PList xs) = PList (map redact xs)"
| "redact (PInt i) = PInt i"
| "redact (PBool b) = PBool b"
| "redact PNone = PNone"
| "redact (POther t) = POther t"

subsection \<open>\<open>str(data)\<close>\<close>

text \<open>
  \<open>repr\<close> of a string: in single quotes, or in double quotes when the string has a
  single quote and no double quote; the quote and the backslash are escaped, and so
  are the characters that are not printable (on U+0000 .. U+00FF: the controls,
  U+007F .. U+00A0 and U+00AD).
\<close>

definition hex_digit :: "nat \<Rightarrow> char" where
  "hex_digit n = ''0123456789abcdef'' ! n"

definition printable :: "char \<Rightarrow> bool" where
  "printable c = (32 \<le> code c \<and> code c < 127 \<or> 160 < code c \<and> code c \<noteq> 173)"

definition repr_char :: "char \<Rightarrow> char \<Rightarrow> string" where
  "repr_char q c =
     (if c = q \<or> c = CHR 0x5C then [CHR 0x5C, c]
      else if c = CHR 0x09 then [CHR 0x5C, CHR ''t'']
      else if c = CHR 0x0A then [CHR 0x5C, CHR ''n'']
      else if c = CHR 0x0D then [CHR 0x5C, CHR ''r'']
      else if printable c then [c]
      else [CHR 0x5C, CHR ''x'', hex_digit (code c div 16), hex_digit (code c mod 16)])"

definition quote_for :: "string \<Rightarrow> char" where
  "quote_for s = (if CHR 0x27 \<in> set s \<and> CHR 0x22 \<notin> set s then CHR 0x22 else CHR 0x27)"

definition repr_str :: "string \<Rightarrow> string" where
  "repr_str s = [quote_for s] @ concat (map (repr_char (quote_for s)) s) @ [quote_for s]"

fun nat_digits :: "nat \<Rightarrow> string" where
  "nat_digits n =
     (if n < 10 then [hex_digit n] else nat_digits (n div 10) @ [hex_digit (n mod 10)])"

declare nat_digits.simps [simp del]

definition repr_int :: "int \<Rightarrow> string" where
  "repr_int i = (if i < 0 then CHR ''-'' # nat_digits (nat (- i)) else nat_digits (nat i))"

fun join :: "string \<Rightarrow> string list \<Rightarrow> string" where
  "join sep [] = []"
| "join sep [x] = x"
| "join sep (x # y # ys) = x @ sep @ join sep (y # ys)"

fun py_repr :: "pyval \<Rightarrow> string" where
  "py_repr (PStr s) = repr_str s"
| "py_repr (PDict items) =
     ''{'' @ join '', '' (map (\<lambda>kv. repr_str (fst kv) @ '': '' @ py_repr (snd kv)) items) @ ''}''"
| "py_repr (PList xs) = ''['' @ join '', '' (map py_repr xs) @ '']''"
| "py_repr (PInt i) = repr_int i"
| "py_repr (PBool b) = (if b then ''True'' else ''False'')"
| "py_repr PNone = ''None''"
| "py_repr (POther t) = t"

text \<open>\<open>str\<close> of a string is the string; of the other values it is their \<open>repr\<close>.\<close>

fun py_str :: "pyval \<Rightarrow> string" where
  "py_str (PStr s) = s"
| "py_str v = py_repr v"

subsection \<open>\<open>detect_pii\<close>, \<open>validate_no_pii\<close>, \<open>get_pii_report\<close>\<close>

text \<open>
  \<open>detect_pii\<close> collects the types in a \<open>set\<close> and returns \<open>list(detected)\<close>, whose
  order Python leaves open: the list below is in the order of \<open>PATTERNS\<close>, and
  only its members and its length are meant.
\<close>

fun detect_loop :: "(string \<times> piece list) list \<Rightarrow> string \<Rightarrow> string list" where
  "detect_loop [] text = []"
| "detect_loop ((pii_type, pattern) # rest) text =
     (if re_search pattern text \<noteq> None then pii_type # detect_loop rest text
      else detect_loop rest text)"

definition detect_pii :: "pyval \<Rightarrow> string list" where
  "detect_pii data = detect_loop PATTERNS (py_str data)"

definition validate_no_pii :: "pyval \<Rightarrow> bool" where
  "validate_no_pii data = (length (detect_pii data) = 0)"

record pii_detail =
  count :: nat
  examples :: "string list"

record pii_report =
  pii_detected :: bool
  pii_types :: "string list"
  details :: "(string \<times> pii_detail) list"

fun report_loop :: "(string \<times> piece list) list \<Rightarrow> string \<Rightarrow> (string \<times> pii_detail) list" where
  "report_loop [] text = []"
| "report_loop ((pii_type, pattern) # rest) text =
     (if re_findall pattern text \<noteq> []
      then (pii_type, \<lparr>count = length (re_findall pattern text),
                        examples = take 3 (re_findall pattern text)\<rparr>) # report_loop rest text
      else report_loop rest text)"

definition get_pii_report :: "pyval \<Rightarrow> pii_report" where
  "get_pii_report data =
     (let detected = report_loop PATTERNS (py_str data)
      in \<lparr>pii_detected = (length detected > 0), pii_types = map fst detected,
          details = detected\<rparr>)"

section \<open>ComplianceValidator\<close>

record verdict =
  compliant :: bool
  issues :: "string list"
  report :: pii_report

definition validate_data_for_storage :: "pyval \<Rightarrow> verdict" where
  "validate_data_for_storage data =
     (let pii_report = get_pii_report data;
          issues = (if pii_detected pii_report
                    then [''PII detected: '' @ join '', '' (pii_types pii_report)] else [])
      in \<lparr>compliant = (length issues = 0), issues = issues, report = pii_report\<rparr>)"

section \<open>SHA-256 and \<open>anonymize\<close>\<close>

text \<open>
  \<open>hashlib.sha256\<close> is SHA-256 of FIPS 180-4, here on bytes and 32-bit words;
  \<open>str.encode()\<close> is UTF-8, one byte for a code point below U+0080 and two for the
  others below U+0100.
\<close>

type_synonym byte = "8 word"
type_synonym w32 = "32 word"

definition utf8 :: "char \<Rightarrow> byte list" where
  "utf8 c = (if code c < 128 then [of_nat (code c)]
             else [of_nat (192 + code c div 64), of_nat (128 + code c mod 64)])"

definition encode :: "string \<Rightarrow> byte list" where
  "encode s = concat (map utf8 s)"

definition rotr :: "nat \<Rightarrow> w32 \<Rightarrow> w32" where
  "rotr n x = drop_bit n x OR push_bit (32 - n) x"

definition ch :: "w32 \<Rightarrow> w32 \<Rightarrow> w32 \<Rightarrow> w32" where
  "ch x y z = (x AND y) XOR (NOT x AND z)"

definition maj :: "w32 \<Rightarrow> w32 \<Rightarrow> w32 \<Rightarrow> w32" where
  "maj x y z = (x AND y) XOR (x AND z) XOR (y AND z)"

definition bsig0 :: "w32 \<Rightarrow> w32" where
  "bsig0 x = rotr 2 x XOR rotr 13 x XOR rotr 22 x"

definition bsig1 :: "w32 \<Rightarrow> w32" where
  "bsig1 x = rotr 6 x XOR rotr 11 x XOR rotr 25 x"

definition ssig0 :: "w32 \<Rightarrow> w32" where
  "ssig0 x = rotr 7 x XOR rotr 18 x XOR drop_bit 3 x"

definition ssig1 :: "w32 \<Rightarrow> w32" where
  "ssig1 x = rotr 17 x XOR rotr 19 x XOR drop_bit 10 x"

text \<open>
  The constants of the standard: the first 32 bits of the fractional parts of the cube
  roots of the first 64 primes (for the rounds) and of the square roots of the first 8
  primes (the initial hash value). \<open>root k n b r\<close> is the integer \<open>k\<close>-th root of \<open>n\<close>,
  found bit by bit from bit \<open>b\<close> down, \<open>r\<close> being the bits set so far.
\<close>

fun root :: "nat \<Rightarrow> nat \<Rightarrow> nat \<Rightarrow> nat \<Rightarrow> nat" where
  "root k n 0 r = r"
| "root k n (Suc b) r = root k n b (if (r + 2 ^ b) ^ k \<le> n then r + 2 ^ b else r)"

definition primes64 :: "nat list" where
  "primes64 = [2, 3, 5, 7, 11, 13, 17, 19, 23, 29, 31, 37, 41, 43, 47, 53, 59, 61, 67, 71,
     73, 79, 83, 89, 97, 101, 103, 107, 109, 113, 127, 131, 137, 139, 149, 151, 157, 163,
     167, 173, 179, 181, 191, 193, 197, 199, 211, 223, 227, 229, 233, 239, 241, 251, 257,
     263, 269, 271, 277, 281, 283, 293, 307, 311]"

definition K :: "w32 list" where
  "K = map (\<lambda>p. of_nat (root 3 (p * 2 ^ 96) 36 0)) primes64"

definition H0 :: "w32 list" where
  "H0 = map (\<lambda>p. of_nat (root 2 (p * 2 ^ 64) 36 0)) (take 8 primes64)"

text \<open>Padding: the byte \<open>0x80\<close>, zero bytes up to 56 modulo 64, and the length of the
  message in bits as 8 bytes, the most significant first.\<close>

definition be_bytes :: "64 word \<Rightarrow> byte list" where
  "be_bytes n = map (\<lambda>i. ucast (drop_bit (8 * i) n)) (rev [0..<8])"

definition pad :: "byte list \<Rightarrow> byte list" where
  "pad m = m @ [0x80] @ replicate ((119 - length m mod 64) mod 64) 0
     @ be_bytes (of_nat (8 * length m))"

fun be_words :: "byte list \<Rightarrow> w32 list" where
  "be_words (a # b # c # d # rest) =
     (push_bit 24 (ucast a) OR push_bit 16 (ucast b) OR push_bit 8 (ucast c) OR ucast d)
       # be_words rest"
| "be_words _ = []"

fun blocks :: "byte list \<Rightarrow> byte list list" where
  "blocks [] = []"
| "blocks (x # xs) = take 64 (x # xs) # blocks (drop 63 xs)"

text \<open>The message schedule: 48 more words after the 16 of the block.\<close>

fun schedule :: "nat \<Rightarrow> w32 list \<Rightarrow> w32 list" where
  "schedule 0 w = w"
| "schedule (Suc n) w =
     schedule n (w @ [ssig1 (w ! (length w - 2)) + w ! (length w - 7)
                      + ssig0 (w ! (length w - 15)) + w ! (length w - 16)])"

fun round :: "w32 list \<Rightarrow> w32 \<times> w32 \<Rightarrow> w32 list" where
  "round [a, b, c, d, e, f, g, h] (k, w) =
     (let t1 = h + bsig1 e + ch e f g + k + w; t2 = bsig0 a + maj a b c
      in [t1 + t2, a, b, c, d + t1, e, f, g])"
| "round v _ = v"

definition compress :: "w32 list \<Rightarrow> byte list \<Rightarrow> w32 list" where
  "compress hs block = map2 (+) hs (foldl round hs (zip K (schedule 48 (be_words block))))"

definition sha256 :: "byte list \<Rightarrow> w32 list" where
  "sha256 m = foldl compress H0 (blocks (pad m))"

definition hex_word :: "w32 \<Rightarrow> string" where
  "hex_word w = map (\<lambda>i. hex_digit (unat (drop_bit (4 * i) w AND 15))) (rev [0..<8])"

definition hexdigest :: "w32 list \<Rightarrow> string" where
  "hexdigest ws = concat (map hex_word ws)"

text \<open>
  \<open>anonymize\<close> reads and writes \<open>self._anonymization_cache\<close>: the cache is passed in
  and returned. A fresh \<open>PIIRedactor\<close> has the empty cache.
\<close>

type_synonym cache = "string \<rightharpoonup> string"

definition anonymize :: "string \<Rightarrow> string \<Rightarrow> cache \<Rightarrow> string \<times> cache" where
  "anonymize identifier category cache =
     (let cache_key = category @ '':'' @ identifier
      in case cache cache_key of
           Some hit \<Rightarrow> (hit, cache)
         | None \<Rightarrow>
             (let hash_hex = take 6 (hexdigest (sha256 (encode identifier)));
                  anonymized = category @ ''_'' @ hash_hex
              in (anonymized, cache(cache_key \<mapsto> anonymized))))"

text \<open>The cache after a sequence of calls \<open>anonymize(identifier, category)\<close>.\<close>

fun after_calls :: "(string \<times> string) list \<Rightarrow> cache \<Rightarrow> cache" where
  "after_calls [] cache = cache"
| "after_calls ((identifier, category) # rest) cache =
     after_calls rest (snd (anonymize identifier category cache))"

section \<open>What the properties speak of\<close>

text \<open>The shape of a value: the value with every string leaf emptied. Two values of one
  shape have the same keys in the same order in every \<open>dict\<close>, the same number of
  elements in every \<open>list\<close>, and the same leaves that are not strings.\<close>

fun shape :: "pyval \<Rightarrow> pyval" where
  "shape (PStr s) = PStr []"
| "shape (PDict items) = PDict (map (\<lambda>kv. (fst kv, shape (snd kv))) items)"
| "shape (PList xs) = PList (map shape xs)"
| "shape (PInt i) = PInt i"
| "shape (PBool b) = PBool b"
| "shape PNone = PNone"
| "shape (POther t) = POther t"


text \<open>\<open>list(d.keys())\<close>.\<close>

fun keys :: "pyval \<Rightarrow> string list" where
  "keys (PDict items) = map fst items"
| "keys v = []"



section \<open>Properties\<close>

subsection \<open>Helper lemmas\<close>

lemma redact_shape_aux: "shape (redact x) = shape x"
  by (induction x rule: redact.induct) simp_all

lemma keys_redact: "keys (redact (PDict items)) = map fst items"
  by (simp add: comp_def)













subsection \<open>The compliance gate\<close>

text \<open>
  C3. For every record, \<open>validate_data_for_storage\<close> returns \<open>compliant = true\<close> if and
  only if \<open>issues\<close> is empty, and \<open>issues\<close> is non-empty if and only if the report of
  \<open>get_pii_report\<close> over the record has \<open>pii_detected = true\<close>: the presence of PII
  is the only source of issues.
\<close>

theorem validate_verdict:
  "compliant (validate_data_for_storage data) = (issues (validate_data_for_storage data) = [])
   \<and> (issues (validate_data_for_storage data) \<noteq> [])
       = pii_detected (report (validate_data_for_storage data))
   \<and> report (validate_data_for_storage data) = get_pii_report data"
  by (simp add: validate_data_for_storage_def Let_def)

subsection \<open>Anonymization\<close>




text \<open>
  C5. The claim: the value \<open>anonymize\<close> returns for an identifier and a category does
  not depend on the calls made before, the cache only saving work. The code keys the
  cache by \<open>f"{category}:{identifier}"\<close>, which two different pairs can share: after
  \<open>anonymize("c", "a:b")\<close> the call \<open>anonymize("b:c", "a")\<close> finds the key \<open>"a:b:c"\<close> and
  returns the token of the other pair, not the one a fresh instance returns.
\<close>

theorem anonymize_cache_collision:
  "fst (anonymize ''b:c'' ''a'' (snd (anonymize ''c'' ''a:b'' Map.empty)))
     = ''a:b_'' @ take 6 (hexdigest (sha256 (encode ''c'')))
   \<and> fst (anonymize ''b:c'' ''a'' Map.empty)
     = ''a_'' @ take 6 (hexdigest (sha256 (encode ''b:c'')))
   \<and> fst (anonymize ''b:c'' ''a'' (snd (anonymize ''c'' ''a:b'' Map.empty)))
     \<noteq> fst (anonymize ''b:c'' ''a'' Map.empty)"
  by (simp add: anonymize_def Let_def)

subsection \<open>Redaction keeps the shape\<close>

text \<open>
  C6. For every value \<open>x\<close>, \<open>redact x\<close> has the shape of \<open>x\<close>: every \<open>dict\<close> keeps its
  keys and their order, every \<open>list\<close> its length and order, every leaf that is not a
  string is returned as it is (a leaf of a type \<open>redact\<close> does not know as well), and
  only string leaves may change.
\<close>

theorem redact_preserves_shape:
  "shape (redact x) = shape x
   \<and> keys (redact (PDict items)) = map fst items
   \<and> redact (PList xs) = PList (map redact xs)
   \<and> redact (PInt i) = PInt i \<and> redact (PBool b) = PBool b \<and> redact PNone = PNone
   \<and> redact (POther t) = POther t"
  by (simp add: redact_shape_aux keys_redact)

subsection \<open>Detection on the known examples\<close>

text \<open>The equations the simplifier evaluates the program by on a given input.\<close>

lemmas class_eval = code_def is_digit_def is_space_def is_upper_az_def is_lower_az_def
  is_word_def dash_or_space_def dash_dot_or_space_def az_letter_def email_local_def
  email_domain_def
lemmas regex_eval = lit_def exactly_def optional_def at_least_def at_boundary_def greedy_def
  backtrack.simps re_search_def scan.simps re_sub_def re_findall_def
lemmas redactor_eval = ssn_pattern_def credit_card_pattern_def email_pattern_def
  phone_pattern_def PATTERNS_def REPLACEMENTS_def replacement_def redact_string_def
  detect_pii_def validate_no_pii_def get_pii_report_def validate_data_for_storage_def
lemmas repr_eval = repr_str_def repr_char_def quote_for_def printable_def hex_digit_def
  repr_int_def nat_digits.simps
lemmas eval = class_eval regex_eval redactor_eval repr_eval Let_def

lemma detect_ssn: "detect_pii (PStr ''123-45-6789'') = [''ssn'']"
  by (simp add: eval)
lemma detect_phone1: "detect_pii (PStr ''(555) 123-4567'') = [''phone'']"
  by (simp add: eval)
lemma detect_phone2: "detect_pii (PStr ''555-123-4567'') = [''phone'']"
  by (simp add: eval)
lemma detect_phone3: "detect_pii (PStr ''555.123.4567'') = [''phone'']"
  by (simp add: eval)
lemma detect_phone4: "detect_pii (PStr ''5551234567'') = [''phone'']"
  by (simp add: eval)
lemma detect_cc1: "detect_pii (PStr ''1234-5678-9012-3456'') = [''credit_card'']"
  by (simp add: eval)
lemma detect_cc2: "detect_pii (PStr ''1234 5678 9012 3456'') = [''credit_card'']"
  by (simp add: eval)
lemma detect_cc3: "detect_pii (PStr ''1234567890123456'') = [''credit_card'', ''phone'']"
  by (simp add: eval)
lemma detect_email1: "detect_pii (PStr ''user@domain.com'') = [''email'']"
  by (simp add: eval)
lemma detect_email2: "detect_pii (PStr ''first.last@company.co.uk'') = [''email'']"
  by (simp add: eval)
lemma detect_prose: "detect_pii (PStr ''call me at 555-123-4567'') = [''phone'']"
  by (simp add: eval)

text \<open>
  C1. For every PII example of the known corpus, \<open>detect_pii\<close> on that string returns a
  list that has the expected category: \<open>ssn\<close> for \<open>123-45-6789\<close>; \<open>phone\<close> for the four
  phone numbers; \<open>credit_card\<close> for the three card numbers; \<open>email\<close> for the two
  addresses. Matching is on substrings: \<open>call me at 555-123-4567\<close> has \<open>phone\<close> too.
\<close>

theorem detect_pii_recall:
  "''ssn'' \<in> set (detect_pii (PStr ''123-45-6789''))
   \<and> ''phone'' \<in> set (detect_pii (PStr ''(555) 123-4567''))
   \<and> ''phone'' \<in> set (detect_pii (PStr ''555-123-4567''))
   \<and> ''phone'' \<in> set (detect_pii (PStr ''555.123.4567''))
   \<and> ''phone'' \<in> set (detect_pii (PStr ''5551234567''))
   \<and> ''credit_card'' \<in> set (detect_pii (PStr ''1234-5678-9012-3456''))
   \<and> ''credit_card'' \<in> set (detect_pii (PStr ''1234 5678 9012 3456''))
   \<and> ''credit_card'' \<in> set (detect_pii (PStr ''1234567890123456''))
   \<and> ''email'' \<in> set (detect_pii (PStr ''user@domain.com''))
   \<and> ''email'' \<in> set (detect_pii (PStr ''first.last@company.co.uk''))
   \<and> ''phone'' \<in> set (detect_pii (PStr ''call me at 555-123-4567''))"
  unfolding detect_ssn detect_phone1 detect_phone2 detect_phone3 detect_phone4 detect_cc1
    detect_cc2 detect_cc3 detect_email1 detect_email2 detect_prose
  by simp

subsection \<open>Redaction and the gate on given records\<close>

lemma redact_john: "redact_string ''john@example.com'' = ''[REDACTED_EMAIL]''"
  by (simp add: eval)

lemma report_john:
  "get_pii_report (PDict [(''email'', PStr ''john@example.com'')])
     = \<lparr>pii_detected = True, pii_types = [''email''],
        details = [(''email'', \<lparr>count = 1, examples = [''john@example.com'']\<rparr>)]\<rparr>"
  by (simp add: eval)

lemma report_john_redacted:
  "get_pii_report (PDict [(''email'', PStr ''[REDACTED_EMAIL]'')])
     = \<lparr>pii_detected = False, pii_types = [], details = []\<rparr>"
  by (simp add: eval)

lemma report_key:
  "get_pii_report (PDict [(''john@example.com'', PInt 1)])
     = \<lparr>pii_detected = True, pii_types = [''email''],
        details = [(''email'', \<lparr>count = 1, examples = [''john@example.com'']\<rparr>)]\<rparr>"
  by (simp add: eval)








text \<open>
  C8. For the record \<open>{"email": "john@example.com"}\<close> the gate returns
  \<open>compliant = false\<close> with issues, \<open>pii_detected = true\<close> and \<open>email\<close> among the types
  of the report; on \<open>redact\<close> of that record, which is \<open>{"email": "[REDACTED_EMAIL]"}\<close>,
  it returns \<open>compliant = true\<close> and no issue.
\<close>

theorem gate_blocks_then_passes:
  "\<not> compliant (validate_data_for_storage (PDict [(''email'', PStr ''john@example.com'')]))
   \<and> issues (validate_data_for_storage (PDict [(''email'', PStr ''john@example.com'')])) \<noteq> []
   \<and> pii_detected (report (validate_data_for_storage (PDict [(''email'', PStr ''john@example.com'')])))
   \<and> ''email'' \<in> set (pii_types (report
         (validate_data_for_storage (PDict [(''email'', PStr ''john@example.com'')]))))
   \<and> redact (PDict [(''email'', PStr ''john@example.com'')])
       = PDict [(''email'', PStr ''[REDACTED_EMAIL]'')]
   \<and> compliant (validate_data_for_storage (redact (PDict [(''email'', PStr ''john@example.com'')])))
   \<and> issues (validate_data_for_storage (redact (PDict [(''email'', PStr ''john@example.com'')]))) = []"
  by (simp add: validate_data_for_storage_def Let_def report_john report_john_redacted redact_john)


text \<open>
  C10. \<open>redact\<close> rewrites the values of a \<open>dict\<close> and never its keys: the keys of the
  result are those of the input, also when a key matches a pattern. Detection reads
  the printed value, keys included, so \<open>redact\<close> returns \<open>{"john@example.com": 1}\<close>
  unchanged and the gate still reports it as not compliant.
\<close>

theorem keys_never_rewritten:
  "keys (redact (PDict items)) = map fst items
   \<and> redact (PDict [(''john@example.com'', PInt 1)]) = PDict [(''john@example.com'', PInt 1)]
   \<and> \<not> compliant (validate_data_for_storage (redact (PDict [(''john@example.com'', PInt 1)])))"
  by (simp add: keys_redact validate_data_for_storage_def Let_def report_key)

subsection \<open>Redacting twice\<close>










end
